theory Spec2Isabelle
  imports Main
begin

section \<open>Python values, errors and dictionaries\<close>

text \<open>
  The functions of \<^verbatim>\<open>b2luigi/core/utils.py\<close> are embedded as HOL functions. An
  exception of the source is the \<open>Inl\<close> branch of a sum.
\<close>

datatype error = TypeError

text \<open>
  The values a caller passes as keyword arguments, restricted to the kinds the
  properties below speak of: \<^verbatim>\<open>None\<close>, a scalar (an integer), a string, a list, and a
  \<^verbatim>\<open>dict\<close> with string keys, which is iterable without being a sequence. The functions
  below compare a value only with a string, and Python's \<^verbatim>\<open>==\<close> never equates a string
  with a value of another kind, as the equality of the datatype.
\<close>

datatype pyval =
    PyNone
  | PyInt int
  | PyStr string
  | PyList "pyval list"
  | PyDict "(string \<times> pyval) list"

text \<open>
  A \<^verbatim>\<open>dict\<close> (also \<^verbatim>\<open>OrderedDict\<close> and the keyword arguments of a call) keeps its
  keys in insertion order: an association list whose keys are distinct.
  \<open>dict_set d k v\<close> is \<^verbatim>\<open>d[k] = v\<close>: an existing key keeps its position, a new key
  goes to the end.
\<close>

type_synonym 'v pydict = "(string \<times> 'v) list"

fun dict_set :: "'v pydict \<Rightarrow> string \<Rightarrow> 'v \<Rightarrow> 'v pydict" where
  "dict_set [] k v = [(k, v)]"
| "dict_set ((k', v') # d) k v =
     (if k' = k then (k, v) # d else (k', v') # dict_set d k v)"

text \<open>\<^verbatim>\<open>dict(pairs)\<close>: the pairs are stored one after the other.\<close>

definition py_dict :: "(string \<times> 'v) list \<Rightarrow> 'v pydict" where
  "py_dict pairs = foldl (\<lambda>d (k, v). dict_set d k v) [] pairs"

text \<open>
  \<^verbatim>\<open>isinstance(value, collections.Iterable)\<close>: strings, lists and dicts are iterable,
  \<^verbatim>\<open>None\<close> and integers are not. The name \<^verbatim>\<open>collections.Iterable\<close> exists in Python 3.6 to 3.9,
  the versions this module runs on (it uses f-strings); the model is of these versions.
\<close>

fun is_iterable :: "pyval \<Rightarrow> bool" where
  "is_iterable PyNone = False"
| "is_iterable (PyInt n) = False"
| "is_iterable (PyStr s) = True"
| "is_iterable (PyList xs) = True"
| "is_iterable (PyDict d) = True"

text \<open>
  \<^verbatim>\<open>tuple(pool)\<close>: a list gives its elements, a string its characters, each a string of
  length one, a dict its keys in insertion order; \<^verbatim>\<open>None\<close> and an integer raise
  \<^verbatim>\<open>TypeError\<close>.
\<close>

fun py_iter :: "pyval \<Rightarrow> error + pyval list" where
  "py_iter (PyList xs) = Inr xs"
| "py_iter (PyStr s) = Inr (map (\<lambda>c. PyStr [c]) s)"
| "py_iter (PyDict d) = Inr (map (\<lambda>(k, v). PyStr k) d)"
| "py_iter PyNone = Inl TypeError"
| "py_iter (PyInt n) = Inl TypeError"

fun iter_all :: "pyval list \<Rightarrow> error + pyval list list" where
  "iter_all [] = Inr []"
| "iter_all (v # vs) =
     (case py_iter v of
        Inl e \<Rightarrow> Inl e
      | Inr pool \<Rightarrow> (case iter_all vs of Inl e \<Rightarrow> Inl e | Inr pools \<Rightarrow> Inr (pool # pools)))"

section \<open>Parameter Combinator\<close>

text \<open>
  \<^verbatim>\<open>itertools.product(*vals)\<close>, as the library documents it:
  \<^verbatim>\<open>
  result = [[]]
  for pool in pools:
      result = [x + [y] for x in result for y in pool]
  \<close>
\<close>

fun product_pools :: "'a list list \<Rightarrow> 'a list list \<Rightarrow> 'a list list" where
  "product_pools result [] = result"
| "product_pools result (pool # pools) =
     product_pools (concat (map (\<lambda>x. map (\<lambda>y. x @ [y]) pool) result)) pools"

definition itertools_product :: "'a list list \<Rightarrow> 'a list list" where
  "itertools_product pools = product_pools [[]] pools"

text \<open>
  \<^verbatim>\<open>
  def product_dict(**kwargs):
      keys = kwargs.keys()
      vals = kwargs.values()
      for instance in itertools.product(*vals):
          yield dict(zip(keys, instance))
  \<close>
  The generator is modelled by the list of what it yields; a value that cannot be
  iterated raises when the generator is first advanced.
\<close>

definition product_dict :: "pyval pydict \<Rightarrow> error + pyval pydict list" where
  "product_dict kwargs =
     (let keys = map fst kwargs; vals = map snd kwargs in
      case iter_all vals of
        Inl e \<Rightarrow> Inl e
      | Inr pools \<Rightarrow> Inr (map (\<lambda>instance. py_dict (zip keys instance)) (itertools_product pools)))"

text \<open>
  \<^verbatim>\<open>
  def fill_kwargs_with_lists(**kwargs):
      return_kwargs = {}
      for key, value in kwargs.items():
          if value is None:
              value = []
          if not isinstance(value, collections.Iterable):
              value = [value]
          return_kwargs[key] = value
      return return_kwargs
  \<close>
\<close>

fun fill_loop :: "pyval pydict \<Rightarrow> pyval pydict \<Rightarrow> pyval pydict" where
  "fill_loop return_kwargs [] = return_kwargs"
| "fill_loop return_kwargs ((key, value) # rest) =
     (let value1 = (if value = PyNone then PyList [] else value);
          value2 = (if \<not> is_iterable value1 then PyList [value1] else value1)
      in fill_loop (dict_set return_kwargs key value2) rest)"

definition fill_kwargs_with_lists :: "pyval pydict \<Rightarrow> pyval pydict" where
  "fill_kwargs_with_lists kwargs = fill_loop [] kwargs"

section \<open>Filter Engine\<close>

text \<open>
  An OutputRecord is the \<^verbatim>\<open>dict(parameters=..., file_name=...)\<close> that the registry
  builder creates: the serialized parameters of the task, in declaration order, and the
  absolute file name.
\<close>

record output_record =
  parameters :: "string pydict"
  file_name :: string

text \<open>
  The inner loop of \<^verbatim>\<open>filter_from_params\<close>, which computes the flag \<^verbatim>\<open>not_use\<close>:
  \<^verbatim>\<open>
  not_use = False
  for key, value in kwargs.items():
      if key in parameters and parameters[key] != value:
          not_use = True
          break
  \<close>
  The argument \<open>params\<close> is \<^verbatim>\<open>output_dict["parameters"]\<close>. A stored parameter is a
  string; it is compared with the value of the assignment.
\<close>

fun not_use :: "string pydict \<Rightarrow> pyval pydict \<Rightarrow> bool" where
  "not_use params [] = False"
| "not_use params ((key, value) # rest) =
     (if key \<in> set (map fst params) \<and> PyStr (the (map_of params key)) \<noteq> value
      then True else not_use params rest)"

text \<open>
  \<^verbatim>\<open>file_names.add(output_dict)\<close>: the set is kept as the list of its elements. Adding
  hashes the new element, and \<^verbatim>\<open>output_dict\<close> is a \<^verbatim>\<open>dict\<close>, which Python does not
  hash: the call raises \<^verbatim>\<open>TypeError: unhashable type: 'dict'\<close>.
\<close>

definition set_add :: "output_record list \<Rightarrow> output_record \<Rightarrow> error + output_record list" where
  "set_add file_names output_dict = Inl TypeError"

text \<open>\<^verbatim>\<open>for output_dict in output_files: ...\<close>, for one assignment \<^verbatim>\<open>kwargs\<close>.\<close>

fun filter_records ::
  "output_record list \<Rightarrow> pyval pydict \<Rightarrow> output_record list \<Rightarrow> error + output_record list" where
  "filter_records file_names kwargs [] = Inr file_names"
| "filter_records file_names kwargs (output_dict # rest) =
     (if not_use (parameters output_dict) kwargs then filter_records file_names kwargs rest
      else case set_add file_names output_dict of
             Inl e \<Rightarrow> Inl e
           | Inr file_names' \<Rightarrow> filter_records file_names' kwargs rest)"

text \<open>\<^verbatim>\<open>for kwargs in product_dict(**kwargs_list): ...\<close>, over the assignments yielded.\<close>

fun filter_assignments ::
  "output_record list \<Rightarrow> pyval pydict list \<Rightarrow> output_record list \<Rightarrow> error + output_record list" where
  "filter_assignments file_names [] output_files = Inr file_names"
| "filter_assignments file_names (kwargs # rest) output_files =
     (case filter_records file_names kwargs output_files of
        Inl e \<Rightarrow> Inl e
      | Inr file_names' \<Rightarrow> filter_assignments file_names' rest output_files)"

text \<open>
  The part of \<^verbatim>\<open>filter_from_params\<close> after the early return: the expansion of the
  constraints, the two loops and \<^verbatim>\<open>list(file_names)\<close>.
\<close>

definition collect_file_names ::
  "output_record list \<Rightarrow> pyval pydict \<Rightarrow> error + output_record list" where
  "collect_file_names output_files kwargs_list =
     (case product_dict kwargs_list of
        Inl e \<Rightarrow> Inl e
      | Inr assignments \<Rightarrow> filter_assignments [] assignments output_files)"

text \<open>
  \<^verbatim>\<open>
  def filter_from_params(output_files, **kwargs):
      kwargs_list = fill_kwargs_with_lists(**kwargs)
      if not kwargs_list:
          return output_files
      file_names = set()
      for kwargs in product_dict(**kwargs_list):
          for output_dict in output_files:
              ...
              file_names.add(output_dict)
      return list(file_names)
  \<close>
  The first parameter is named \<^verbatim>\<open>output_files\<close>. A keyword argument of that name, given
  with the records, is not a constraint: the call raises \<^verbatim>\<open>TypeError\<close> (multiple
  values for the argument) before the body runs.
\<close>

definition filter_from_params ::
  "output_record list \<Rightarrow> pyval pydict \<Rightarrow> error + output_record list" where
  "filter_from_params output_files kwargs =
     (if ''output_files'' \<in> set (map fst kwargs) then Inl TypeError
      else
        let kwargs_list = fill_kwargs_with_lists kwargs in
        if kwargs_list = [] then Inr output_files
        else collect_file_names output_files kwargs_list)"

section \<open>Tasks, Task Tree Walker and Output Registry Builder\<close>

text \<open>
  A task as the functions of this module use it: its family name, its parameters in
  declaration order, its dependencies and its declared output files. A parameter is
  given by its name, its \<^verbatim>\<open>significant\<close> flag and the string
  \<^verbatim>\<open>parameter.serialize(getattr(task, key))\<close>. The dependencies are a list of tasks, so
  the tree is finite.
\<close>

datatype task = Task
  (get_task_family: string)
  (get_params: "(string \<times> bool \<times> string) list")
  (deps: "task list")
  (get_output_file_names: "string pydict")

text \<open>
  \<^verbatim>\<open>
  def get_serialized_parameters(task):
      serialized_parameters = collections.OrderedDict()
      for key, parameter in task.get_params():
          if not parameter.significant:
              continue
          value = getattr(task, key)
          value = parameter.serialize(value)
          serialized_parameters[key] = value
      return serialized_parameters
  \<close>
\<close>

fun serialize_loop :: "string pydict \<Rightarrow> (string \<times> bool \<times> string) list \<Rightarrow> string pydict" where
  "serialize_loop serialized_parameters [] = serialized_parameters"
| "serialize_loop serialized_parameters ((key, significant, value) # rest) =
     (if \<not> significant then serialize_loop serialized_parameters rest
      else serialize_loop (dict_set serialized_parameters key value) rest)"

definition get_serialized_parameters :: "task \<Rightarrow> string pydict" where
  "get_serialized_parameters task = serialize_loop [] (get_params task)"

text \<open>
  \<^verbatim>\<open>
  def task_iterator(task):
      yield task
      for dep in task.deps():
          yield from task_iterator(dep)
  \<close>
\<close>

fun task_iterator :: "task \<Rightarrow> task list" where
  "task_iterator (Task family params ds outputs) =
     Task family params ds outputs # concat (map task_iterator ds)"

text \<open>
  The registry is a \<^verbatim>\<open>collections.defaultdict(list)\<close>: reading a key that is not
  stored gives the empty list of the default factory, not a \<^verbatim>\<open>KeyError\<close>.
\<close>

type_synonym registry = "output_record list pydict"

definition defaultdict_get :: "registry \<Rightarrow> string \<Rightarrow> output_record list" where
  "defaultdict_get d key = (case map_of d key of None \<Rightarrow> [] | Some records \<Rightarrow> records)"

text \<open>\<^verbatim>\<open>d[key].append(x)\<close>\<close>

definition defaultdict_append :: "registry \<Rightarrow> string \<Rightarrow> output_record \<Rightarrow> registry" where
  "defaultdict_append d key x = dict_set d key (defaultdict_get d key @ [x])"

text \<open>
  \<^verbatim>\<open>
  for file_key, file_name in output_dict.items():
      all_output_files[file_key].append(dict(parameters=task.get_serialized_parameters(),
                                             file_name=os.path.abspath(file_name)))
  \<close>
  \<^verbatim>\<open>os.path.abspath\<close> depends on the working directory of the process and is a
  parameter of the model. The method \<^verbatim>\<open>task.get_serialized_parameters\<close> is the function
  \<open>get_serialized_parameters\<close> of this module applied to the task.
\<close>

fun add_outputs :: "(string \<Rightarrow> string) \<Rightarrow> task \<Rightarrow> registry \<Rightarrow> string pydict \<Rightarrow> registry" where
  "add_outputs abspath task all_output_files [] = all_output_files"
| "add_outputs abspath task all_output_files ((file_key, fname) # rest) =
     add_outputs abspath task
       (defaultdict_append all_output_files file_key
          \<lparr>parameters = get_serialized_parameters task, file_name = abspath fname\<rparr>)
       rest"

text \<open>
  \<^verbatim>\<open>
  for task in task_iterator(root_module):
      output_dict = task.get_output_file_names()
      if not output_dict:
          continue
      for file_key, file_name in output_dict.items(): ...
  \<close>
  A task that declares no output has the empty mapping.
\<close>

fun collect_outputs :: "(string \<Rightarrow> string) \<Rightarrow> registry \<Rightarrow> task list \<Rightarrow> registry" where
  "collect_outputs abspath all_output_files [] = all_output_files"
| "collect_outputs abspath all_output_files (task # rest) =
     (let output_dict = get_output_file_names task in
      if output_dict = [] then collect_outputs abspath all_output_files rest
      else collect_outputs abspath (add_outputs abspath task all_output_files output_dict) rest)"

text \<open>
  \<^verbatim>\<open>
  def get_all_output_files_in_tree(root_module, key=None):
      if key:
          return get_all_output_files_in_tree(root_module)[key]
      all_output_files = collections.defaultdict(list)
      ...
      return all_output_files
  \<close>
  The call without a key is \<open>all_output_files_in_tree\<close>. The function returns the
  registry, or the entry of one key: the two constructors of \<open>tree_result\<close>. A key
  that is \<^verbatim>\<open>None\<close> or the empty string is false in the test \<^verbatim>\<open>if key\<close>.
\<close>

definition all_output_files_in_tree :: "(string \<Rightarrow> string) \<Rightarrow> task \<Rightarrow> registry" where
  "all_output_files_in_tree abspath root_module =
     collect_outputs abspath [] (task_iterator root_module)"

datatype tree_result = Registry registry | Entries "output_record list"

definition get_all_output_files_in_tree ::
  "(string \<Rightarrow> string) \<Rightarrow> task \<Rightarrow> string option \<Rightarrow> tree_result" where
  "get_all_output_files_in_tree abspath root_module key =
     (case key of
        None \<Rightarrow> Registry (all_output_files_in_tree abspath root_module)
      | Some k \<Rightarrow>
          if k \<noteq> [] then Entries (defaultdict_get (all_output_files_in_tree abspath root_module) k)
          else Registry (all_output_files_in_tree abspath root_module))"

section \<open>Path Deriver\<close>

text \<open>
  \<^verbatim>\<open>os.path.join(a, *p)\<close> on POSIX, as the library implements it:
  \<^verbatim>\<open>
  path = a
  for b in p:
      if b.startswith('/'):
          path = b
      elif not path or path.endswith('/'):
          path += b
      else:
          path += '/' + b
  return path
  \<close>
\<close>

definition startswith_sep :: "string \<Rightarrow> bool" where
  "startswith_sep b = (case b of [] \<Rightarrow> False | c # cs \<Rightarrow> c = CHR ''/'')"

definition endswith_sep :: "string \<Rightarrow> bool" where
  "endswith_sep path = (path \<noteq> [] \<and> last path = CHR ''/'')"

fun os_path_join :: "string \<Rightarrow> string list \<Rightarrow> string" where
  "os_path_join path [] = path"
| "os_path_join path (b # p) =
     os_path_join
       (if startswith_sep b then b
        else if path = [] \<or> endswith_sep path then path @ b
        else path @ ''/'' @ b)
       p"

text \<open>
  \<^verbatim>\<open>
  def create_output_file_name(task, base_filename, create_folder=False, result_path=None):
      serialized_parameters = get_serialized_parameters(task)
      if not result_path:
          result_path = get_setting("result_path", ".")
      param_list = [f"{key}={value}" for key, value in serialized_parameters.items()]
      filename = os.path.join(result_path, *param_list, base_filename)
      if create_folder:
          os.makedirs(os.path.dirname(filename), exist_ok=True)
      return filename
  \<close>
  The value of \<^verbatim>\<open>get_setting("result_path", ".")\<close> is the first argument of the model;
  \<open>effective_result_path\<close> is the root after \<^verbatim>\<open>if not result_path: ...\<close> (\<^verbatim>\<open>None\<close> and
  the empty string are false).
  The directories that \<^verbatim>\<open>os.makedirs\<close> creates are on the file system, outside the
  model; the name returned does not depend on \<^verbatim>\<open>create_folder\<close>.
\<close>

definition effective_result_path :: "string \<Rightarrow> string option \<Rightarrow> string" where
  "effective_result_path result_path_setting result_path =
     (case result_path of
        None \<Rightarrow> result_path_setting
      | Some p \<Rightarrow> if p = [] then result_path_setting else p)"

definition create_output_file_name ::
  "string \<Rightarrow> task \<Rightarrow> string \<Rightarrow> bool \<Rightarrow> string option \<Rightarrow> string" where
  "create_output_file_name result_path_setting task base_filename create_folder result_path =
     (let serialized_parameters = get_serialized_parameters task;
          result_path' = effective_result_path result_path_setting result_path;
          param_list = map (\<lambda>(key, value). key @ ''='' @ value) serialized_parameters
      in os_path_join result_path' (param_list @ [base_filename]))"

text \<open>
  The path as the specification words it, to compare with the function: the root, one
  segment \<open>name=value\<close> per significant parameter in declaration order, then the base
  filename, each component but the last followed by one separator (a component that is
  empty or already ends with the separator gets none).
\<close>

definition with_sep :: "string \<Rightarrow> string" where
  "with_sep s = (if s = [] \<or> endswith_sep s then s else s @ ''/'')"

definition spec_segments :: "task \<Rightarrow> string list" where
  "spec_segments task =
     map (\<lambda>(name, significant, value). name @ ''='' @ value)
       (filter (\<lambda>(name, significant, value). significant) (get_params task))"

definition spec_derived_path :: "string \<Rightarrow> string list \<Rightarrow> string \<Rightarrow> string" where
  "spec_derived_path root segments base_filename =
     concat (map with_sep (root # segments)) @ base_filename"

section \<open>Dictionaries whose keys are distinct\<close>

text \<open>
  The keys of a Python dictionary are distinct. On such an association list, storing the
  pairs one after the other gives the list itself.
\<close>

lemma dict_set_fresh: "k \<notin> fst ` set d \<Longrightarrow> dict_set d k v = d @ [(k, v)]"
  by (induction d) auto

lemma foldl_dict_set_distinct:
  "distinct (map fst (d @ pairs)) \<Longrightarrow> foldl (\<lambda>d (k, v). dict_set d k v) d pairs = d @ pairs"
proof (induction pairs arbitrary: d)
  case Nil
  then show ?case by simp
next
  case (Cons p pairs)
  obtain k v where p: "p = (k, v)" by (cases p)
  from Cons.prems have fresh: "k \<notin> fst ` set d" by (auto simp: p)
  from Cons.prems have "distinct (map fst ((d @ [(k, v)]) @ pairs))" by (simp add: p)
  from Cons.IH [OF this] show ?case by (simp add: p dict_set_fresh [OF fresh])
qed

lemma py_dict_distinct: "distinct (map fst pairs) \<Longrightarrow> py_dict pairs = pairs"
  using foldl_dict_set_distinct [of "[]" pairs] by (simp add: py_dict_def)



lemma product_pools_append:
  "product_pools result pools = concat (map (\<lambda>x. map (\<lambda>ys. x @ ys) (product_lists pools)) result)"
proof (induction pools arbitrary: result)
  case Nil
  then show ?case by (simp add: concat_map_singleton)
next
  case (Cons pool pools)
  have snoc: "(@) (a @ [y]) = (\<lambda>ys. a @ y # ys)" for a :: "'a list" and y
    by (simp add: fun_eq_iff)
  show ?case
    unfolding product_pools.simps Cons.IH
    by (induction result) (simp_all add: map_concat comp_def snoc)
qed

lemma itertools_product_eq: "itertools_product pools = product_lists pools"
proof -
  have "(@) [] = (\<lambda>ys :: 'a list. ys)" by (simp add: fun_eq_iff)
  then show ?thesis by (simp add: itertools_product_def product_pools_append)
qed

lemma iter_all_lists: "iter_all (map PyList seqs) = Inr seqs"
  by (induction seqs) simp_all

lemma zip_keys_dict:
  assumes "distinct keys"
  shows "py_dict (zip keys instance) = zip keys instance"
proof -
  from assms have "distinct (map fst (zip keys instance))"
    by (simp add: map_fst_zip_take)
  then show ?thesis by (rule py_dict_distinct)
qed

lemma product_dict_lists:
  assumes "distinct keys" and "length seqs = length keys"
  shows "product_dict (zip keys (map PyList seqs)) = Inr (map (zip keys) (product_lists seqs))"
proof -
  have "map fst (zip keys (map PyList seqs)) = keys" "map snd (zip keys (map PyList seqs)) = map PyList seqs"
    using assms(2) by simp_all
  then show ?thesis
    by (simp add: product_dict_def iter_all_lists itertools_product_eq zip_keys_dict [OF assms(1)])
qed

lemma length_product_lists_prod: "length (product_lists xss) = prod_list (map length xss)"
  by (induction xss) (simp_all add: length_concat comp_def sum_list_triv)

lemma set_zip_product_lists:
  assumes "length seqs = length keys"
  shows "(a \<in> set (map (zip keys) (product_lists seqs))) =
         (map fst a = keys \<and> list_all2 (\<lambda>v pool. v \<in> set pool) (map snd a) seqs)"
proof
  assume "a \<in> set (map (zip keys) (product_lists seqs))"
  then obtain xs where xs: "xs \<in> set (product_lists seqs)" and a: "a = zip keys xs" by auto
  from xs have all2: "list_all2 (\<lambda>v pool. v \<in> set pool) xs seqs"
    by (simp add: product_lists_set)
  then have "length xs = length keys" using assms by (simp add: list_all2_lengthD)
  then show "map fst a = keys \<and> list_all2 (\<lambda>v pool. v \<in> set pool) (map snd a) seqs"
    using all2 by (simp add: a)
next
  assume h: "map fst a = keys \<and> list_all2 (\<lambda>v pool. v \<in> set pool) (map snd a) seqs"
  then have "map snd a \<in> set (product_lists seqs)" by (simp add: product_lists_set)
  moreover have "a = zip keys (map snd a)" using h by (metis zip_map_fst_snd)
  ultimately show "a \<in> set (map (zip keys) (product_lists seqs))" by auto
qed


section \<open>Properties of the Parameter Combinator\<close>

text \<open>
  Claim C5. For a mapping from constraint names (distinct, as the keys of a dictionary
  are) to lists of candidate values, \<open>product_dict\<close> yields the Cartesian product of
  the lists, in the order of \<open>product_lists\<close> (the last key varies fastest): each
  assignment has the keys of the input in the input's order, an assignment is yielded
  iff each of its values is taken from the list of its key, and the number of
  assignments is the product of the lengths of the lists.
\<close>

theorem product_dict_cartesian_product:
  assumes "distinct keys" and "length seqs = length keys"
  shows "\<exists>assignments.
           product_dict (zip keys (map PyList seqs)) = Inr assignments
         \<and> assignments = map (zip keys) (product_lists seqs)
         \<and> length assignments = prod_list (map length seqs)
         \<and> (\<forall>a. (a \<in> set assignments) =
                (map fst a = keys \<and> list_all2 (\<lambda>v pool. v \<in> set pool) (map snd a) seqs))"
  using product_dict_lists [OF assms] set_zip_product_lists [OF assms(2)]
  by (simp add: length_product_lists_prod)

theorem product_dict_cartesian_product_witness:
  "distinct [''x'', ''y'']
   \<and> length [[PyInt 1, PyInt 2], [PyInt 3]] = length [''x'', ''y'']
   \<and> product_dict [(''x'', PyList [PyInt 1, PyInt 2]), (''y'', PyList [PyInt 3])]
       = Inr [[(''x'', PyInt 1), (''y'', PyInt 3)], [(''x'', PyInt 2), (''y'', PyInt 3)]]"
  using product_dict_cartesian_product [of "[''x'', ''y'']" "[[PyInt 1, PyInt 2], [PyInt 3]]"]
  by simp

text \<open>
  The example of the specification, \<open>{x: [1, 2], y: [3]}\<close>, is the witness above:
  exactly \<open>{x: 1, y: 3}\<close> and \<open>{x: 2, y: 3}\<close>.
\<close>


text \<open>
  Claim C10. A string is iterable, so normalization leaves a string-valued constraint
  as it is and the Combinator iterates it character by character: \<open>{x: "ab"}\<close>
  expands into \<open>{x: "a"}\<close> and \<open>{x: "b"}\<close>, and in general a string constraint of
  length n into n assignments, one per character.
\<close>

theorem string_constraint_split_by_character:
  "fill_kwargs_with_lists [(x, PyStr s)] = [(x, PyStr s)]
   \<and> product_dict (fill_kwargs_with_lists [(x, PyStr s)])
       = Inr (map (\<lambda>c. [(x, PyStr [c])]) s)
   \<and> product_dict (fill_kwargs_with_lists [(''x'', PyStr ''ab'')])
       = Inr [[(''x'', PyStr ''a'')], [(''x'', PyStr ''b'')]]"
  by (simp add: fill_kwargs_with_lists_def product_dict_def itertools_product_def
      py_dict_def comp_def)

section \<open>Properties of the loops of the Filter Engine\<close>

text \<open>
  The match rule of one assignment: the flag \<open>not_use\<close> is set iff some key of the
  assignment is also a key of the record's parameters and the two values differ. A key
  of the assignment that the record does not have never sets it.
\<close>

lemma not_use_iff:
  "not_use params kwargs =
     (\<exists>(key, value) \<in> set kwargs.
        key \<in> set (map fst params) \<and> PyStr (the (map_of params key)) \<noteq> value)"
  by (induction kwargs) (simp_all split: prod.splits, blast)

lemma filter_records_Inr:
  "(filter_records file_names kwargs output_files = Inr result) =
     (result = file_names \<and> (\<forall>r \<in> set output_files. not_use (parameters r) kwargs))"
  by (induction output_files) (auto simp: set_add_def)

lemma error_TypeError: "e = TypeError"
  by (cases e)

lemma filter_records_Inl:
  "(filter_records file_names kwargs output_files = Inl e) =
     (\<exists>r \<in> set output_files. \<not> not_use (parameters r) kwargs)"
  by (induction output_files) (auto simp: set_add_def error_TypeError [of e])

lemma filter_assignments_Inr:
  "(filter_assignments file_names assignments output_files = Inr result) =
     (result = file_names \<and>
      (\<forall>a \<in> set assignments. \<forall>r \<in> set output_files. not_use (parameters r) a))"
proof (induction assignments)
  case Nil
  then show ?case by auto
next
  case (Cons a assignments)
  show ?case
  proof (cases "filter_records file_names a output_files")
    case (Inl e)
    then have "\<exists>r \<in> set output_files. \<not> not_use (parameters r) a"
      by (simp add: filter_records_Inl)
    with Inl show ?thesis by auto
  next
    case (Inr fs)
    then have "fs = file_names" "\<forall>r \<in> set output_files. not_use (parameters r) a"
      by (simp_all add: filter_records_Inr)
    with Inr Cons.IH show ?thesis by auto
  qed
qed








lemma fill_kwargs_with_lists_nonempty: "kwargs \<noteq> [] \<Longrightarrow> fill_kwargs_with_lists kwargs \<noteq> []"
proof -
  have grow: "fill_loop acc kw \<noteq> []" if "acc \<noteq> []" for acc kw
    using that
  proof (induction kw arbitrary: acc)
    case Nil
    then show ?case by simp
  next
    case (Cons p kw)
    obtain k v where p: "p = (k, v)" by (cases p)
    have "dict_set acc k w \<noteq> []" for w by (cases acc) (auto split: if_splits)
    then show ?case by (simp add: p Let_def Cons.IH)
  qed
  assume "kwargs \<noteq> []"
  then obtain p kw where kw: "kwargs = p # kw" by (cases kwargs) auto
  obtain k v where p: "p = (k, v)" by (cases p)
  show ?thesis
    by (simp add: fill_kwargs_with_lists_def kw p Let_def grow)
qed


section \<open>Claims on the Filter Engine\<close>

text \<open>
  Claim C6. Filtering a sequence of records with the empty constraint mapping returns
  the sequence unchanged: \<open>fill_kwargs_with_lists\<close> of the empty mapping is empty,
  and the function returns its input before any expansion.
\<close>

theorem filter_empty_constraints_identity:
  "filter_from_params output_files [] = Inr output_files"
  by (simp add: filter_from_params_def fill_kwargs_with_lists_def)


text \<open>
  Claim C8, as stated, fails on its first part: for the empty mapping the Combinator
  does not yield zero assignments. \<^verbatim>\<open>itertools.product()\<close> of no sequence yields the
  empty tuple once, so \<open>product_dict\<close> yields one assignment, the empty one.
\<close>

theorem empty_mapping_yields_nothing_counterexample:
  "product_dict [] = Inr [[]] \<and> product_dict [] \<noteq> Inr []"
  by (simp add: product_dict_def itertools_product_def py_dict_def)

text \<open>
  Claim C8, amended. For the empty mapping the Combinator yields exactly one assignment,
  the empty one. The Filter Engine does not reach the Combinator for the empty mapping:
  normalization gives the empty mapping, and the function returns its input.
\<close>

theorem empty_mapping_yields_empty_assignment:
  "product_dict [] = Inr [[]]
   \<and> fill_kwargs_with_lists [] = []
   \<and> filter_from_params output_files [] = Inr output_files"
  by (simp add: product_dict_def itertools_product_def py_dict_def
      fill_kwargs_with_lists_def filter_from_params_def)

text \<open>
  For a non-empty constraint mapping, whenever a record matches an expanded assignment
  the function raises: the first such record is added to the set, and a \<^verbatim>\<open>dict\<close>
  cannot be.
\<close>

lemma filter_from_params_raises_on_match:
  assumes "kwargs \<noteq> []"
    and "product_dict (fill_kwargs_with_lists kwargs) = Inr assignments"
    and "a \<in> set assignments" and "r \<in> set output_files"
    and "\<not> not_use (parameters r) a"
  shows "filter_from_params output_files kwargs = Inl TypeError"
proof (cases "''output_files'' \<in> set (map fst kwargs)")
  case True
  then show ?thesis by (simp add: filter_from_params_def)
next
  case False
  from assms(1) have ne: "fill_kwargs_with_lists kwargs \<noteq> []"
    by (rule fill_kwargs_with_lists_nonempty)
  have "filter_assignments [] assignments output_files \<noteq> Inr result" for result
    using assms(3-5) by (auto simp: filter_assignments_Inr)
  then obtain e where "filter_assignments [] assignments output_files = Inl e"
    by (cases "filter_assignments [] assignments output_files") auto
  then have "filter_assignments [] assignments output_files = Inl TypeError"
    using error_TypeError [of e] by simp
  with False ne assms(2) show ?thesis
    by (simp add: filter_from_params_def collect_file_names_def)
qed

text \<open>
  Claim C2, evaluated on a sequence that holds one matching record twice, with the
  non-empty constraint \<open>{run: ["1"]}\<close>. The claim expects a result that holds the
  record twice, in the order of the input; the function raises \<^verbatim>\<open>TypeError\<close> at
  \<^verbatim>\<open>file_names.add(output_dict)\<close> for the first record and returns no result.
\<close>

theorem repeated_matching_record_raises:
  "filter_from_params
     [\<lparr>parameters = [(''run'', ''1'')], file_name = ''/out/run=1/log.txt''\<rparr>,
      \<lparr>parameters = [(''run'', ''1'')], file_name = ''/out/run=1/log.txt''\<rparr>]
     [(''run'', PyList [PyStr ''1''])]
   = Inl TypeError
   \<and> filter_from_params
     [\<lparr>parameters = [(''run'', ''1'')], file_name = ''/out/run=1/log.txt''\<rparr>,
      \<lparr>parameters = [(''run'', ''1'')], file_name = ''/out/run=1/log.txt''\<rparr>]
     [(''run'', PyList [PyStr ''1''])]
   \<noteq> Inr [\<lparr>parameters = [(''run'', ''1'')], file_name = ''/out/run=1/log.txt''\<rparr>,
           \<lparr>parameters = [(''run'', ''1'')], file_name = ''/out/run=1/log.txt''\<rparr>]"
  by (simp add: filter_from_params_def fill_kwargs_with_lists_def collect_file_names_def
      product_dict_def itertools_product_def py_dict_def set_add_def Let_def)

text \<open>
  Claim C1, evaluated on the scenario. The declared file names are absolute and
  normalized, so \<^verbatim>\<open>os.path.abspath\<close> returns them as they are. The registry entry for
  \<open>log\<close> holds the two records in traversal order. Filtering it with \<open>run = "1"\<close> reaches
  \<^verbatim>\<open>file_names.add(output_dict)\<close> for the first record and raises \<^verbatim>\<open>TypeError\<close>;
  the claim expects the record with \<open>run = "1"\<close> as the result.
\<close>

theorem registry_filter_log_run_1_raises:
  "get_all_output_files_in_tree (\<lambda>p. p)
     (Task ''Root'' []
        [Task ''Dep'' [(''run'', True, ''1'')] [] [(''log'', ''/out/run=1/log.txt'')],
         Task ''Dep'' [(''run'', True, ''2'')] [] [(''log'', ''/out/run=2/log.txt'')]]
        [])
     (Some ''log'')
   = Entries [\<lparr>parameters = [(''run'', ''1'')], file_name = ''/out/run=1/log.txt''\<rparr>,
              \<lparr>parameters = [(''run'', ''2'')], file_name = ''/out/run=2/log.txt''\<rparr>]
   \<and> filter_from_params
       [\<lparr>parameters = [(''run'', ''1'')], file_name = ''/out/run=1/log.txt''\<rparr>,
        \<lparr>parameters = [(''run'', ''2'')], file_name = ''/out/run=2/log.txt''\<rparr>]
       [(''run'', PyStr ''1'')]
     = Inl TypeError"
  by (simp add: get_all_output_files_in_tree_def all_output_files_in_tree_def
      defaultdict_append_def defaultdict_get_def get_serialized_parameters_def
      filter_from_params_def fill_kwargs_with_lists_def collect_file_names_def
      product_dict_def itertools_product_def py_dict_def set_add_def Let_def)

text \<open>
  Claim C4, evaluated on the example of the specification: the record \<open>{x: "1"}\<close>
  and the constraint \<open>{z: ["9"]}\<close>. The record matches the only assignment
  (\<open>not_use\<close> is false, the key \<open>z\<close> being absent from it), and the function raises
  \<^verbatim>\<open>TypeError\<close> where the claim expects the record in the result.
\<close>

theorem matching_record_not_returned:
  "\<not> not_use [(''x'', ''1'')] [(''z'', PyStr ''9'')]
   \<and> product_dict (fill_kwargs_with_lists [(''z'', PyList [PyStr ''9''])])
       = Inr [[(''z'', PyStr ''9'')]]
   \<and> filter_from_params [\<lparr>parameters = [(''x'', ''1'')], file_name = ''/out/x=1/hist.root''\<rparr>]
       [(''z'', PyList [PyStr ''9''])]
     = Inl TypeError"
  by (simp add: filter_from_params_def fill_kwargs_with_lists_def collect_file_names_def
      product_dict_def itertools_product_def py_dict_def set_add_def Let_def)

section \<open>Claims on constraint normalization\<close>




section \<open>Claims on the Output Registry Builder\<close>

text \<open>
  A key that no task of the tree declares is not stored in the registry.
\<close>

lemma map_of_dict_set: "map_of (dict_set d k v) k' = (if k' = k then Some v else map_of d k')"
  by (induction d) auto

lemma map_of_add_outputs:
  "key \<notin> fst ` set outputs \<Longrightarrow> map_of (add_outputs abspath task d outputs) key = map_of d key"
proof (induction outputs arbitrary: d)
  case Nil
  then show ?case by simp
next
  case (Cons p outputs)
  obtain k f where p: "p = (k, f)" by (cases p)
  from Cons.prems have "key \<noteq> k" "key \<notin> fst ` set outputs" by (auto simp: p)
  then show ?case
    by (simp add: p Cons.IH defaultdict_append_def map_of_dict_set)
qed

lemma map_of_collect_outputs:
  "\<forall>t \<in> set tasks. key \<notin> fst ` set (get_output_file_names t) \<Longrightarrow>
   map_of (collect_outputs abspath d tasks) key = map_of d key"
proof (induction tasks arbitrary: d)
  case Nil
  then show ?case by simp
next
  case (Cons t tasks)
  then have "key \<notin> fst ` set (get_output_file_names t)"
    and rest: "\<forall>t \<in> set tasks. key \<notin> fst ` set (get_output_file_names t)" by simp_all
  then show ?case
    by (simp add: Let_def Cons.IH [OF rest] map_of_add_outputs)
qed


text \<open>
  Claim C3, as stated, fails. The registry is a \<^verbatim>\<open>defaultdict(list)\<close>, and the request
  for a key reads \<^verbatim>\<open>registry[key]\<close>: for the key \<open>hist\<close>, which the only task of the
  tree does not declare, the function returns the empty sequence and raises nothing.
\<close>

theorem undeclared_key_lookup_failure_counterexample:
  "get_all_output_files_in_tree (\<lambda>p. p)
     (Task ''Root'' [] [] [(''log'', ''/out/log.txt'')]) (Some ''hist'') = Entries []"
  by (simp add: get_all_output_files_in_tree_def all_output_files_in_tree_def
      defaultdict_append_def defaultdict_get_def get_serialized_parameters_def Let_def)

text \<open>
  Claim C3, amended. For every root task and every non-empty key that no task of the
  tree declares, the key is not an entry of the registry, and requesting it from the
  registry builder returns the empty sequence; no lookup failure is raised.
\<close>

theorem undeclared_key_gives_empty_sequence:
  assumes "key \<noteq> []"
    and "\<forall>t \<in> set (task_iterator root_module). key \<notin> fst ` set (get_output_file_names t)"
  shows "get_all_output_files_in_tree abspath root_module (Some key) = Entries []
       \<and> map_of (all_output_files_in_tree abspath root_module) key = None"
proof -
  have "map_of (all_output_files_in_tree abspath root_module) key = None"
    unfolding all_output_files_in_tree_def
    using map_of_collect_outputs [OF assms(2), of abspath "[]"] by simp
  then show ?thesis
    using assms(1) by (simp add: get_all_output_files_in_tree_def defaultdict_get_def)
qed

theorem undeclared_key_gives_empty_sequence_witness:
  "''hist'' \<noteq> []
   \<and> list_all (\<lambda>t. ''hist'' \<notin> fst ` set (get_output_file_names t))
        (task_iterator
          (Task ''Root'' [] [Task ''Dep'' [(''run'', True, ''1'')] [] [(''log'', ''/out/run=1/log.txt'')]] []))
   \<and> get_all_output_files_in_tree (\<lambda>p. p)
        (Task ''Root'' [] [Task ''Dep'' [(''run'', True, ''1'')] [] [(''log'', ''/out/run=1/log.txt'')]] [])
        (Some ''hist'') = Entries []"
proof -
  let ?root = "Task ''Root'' [] [Task ''Dep'' [(''run'', True, ''1'')] [] [(''log'', ''/out/run=1/log.txt'')]] []"
  have h1: "''hist'' \<noteq> []" by simp
  have h2: "\<forall>t \<in> set (task_iterator ?root). ''hist'' \<notin> fst ` set (get_output_file_names t)"
    by simp
  from undeclared_key_gives_empty_sequence [OF h1 h2, of "\<lambda>p. p"] h1 h2 show ?thesis
    by (simp add: list_all_iff)
qed


section \<open>Claims on the Path Deriver\<close>

text \<open>
  With distinct parameter names the serialized parameters are the significant
  parameters in declaration order, and \<^verbatim>\<open>os.path.join\<close> concatenates components none
  of which is absolute.
\<close>

lemma serialize_loop_distinct:
  "distinct (map fst acc @ map fst (filter (\<lambda>(name, significant, value). significant) ps)) \<Longrightarrow>
   serialize_loop acc ps =
     acc @ map (\<lambda>(name, significant, value). (name, value))
             (filter (\<lambda>(name, significant, value). significant) ps)"
proof (induction ps arbitrary: acc)
  case Nil
  then show ?case by simp
next
  case (Cons p ps)
  obtain k sg v where p: "p = (k, sg, v)" by (cases p)
  show ?case
  proof (cases sg)
    case False
    with Cons show ?thesis by (simp add: p)
  next
    case True
    with Cons.prems have fresh: "k \<notin> fst ` set acc"
      and d: "distinct (map fst (acc @ [(k, v)]) @ map fst (filter (\<lambda>(name, significant, value). significant) ps))"
      by (auto simp: p)
    from Cons.IH [OF d] True show ?thesis
      by (simp add: p dict_set_fresh [OF fresh])
  qed
qed

lemma get_serialized_parameters_distinct:
  assumes "distinct (map fst (get_params task))"
  shows "get_serialized_parameters task =
           map (\<lambda>(name, significant, value). (name, value))
             (filter (\<lambda>(name, significant, value). significant) (get_params task))"
proof -
  from assms have "distinct (map fst (filter (\<lambda>(name, significant, value). significant) (get_params task)))"
    by (rule distinct_map_filter)
  then show ?thesis
    using serialize_loop_distinct [of "[]" "get_params task"]
    by (simp add: get_serialized_parameters_def)
qed

lemma with_sep_append:
  "with_sep (with_sep path @ b) = with_sep path @ with_sep b"
  by (cases "b = []") (auto simp: with_sep_def endswith_sep_def)

lemma os_path_join_relative:
  "\<forall>b \<in> set (bs @ [base]). \<not> startswith_sep b \<Longrightarrow>
   os_path_join path (bs @ [base]) = concat (map with_sep (path # bs)) @ base"
proof (induction bs arbitrary: path)
  case Nil
  then show ?case by (simp add: with_sep_def)
next
  case (Cons b bs)
  then have nb: "\<not> startswith_sep b" and rest: "\<forall>b \<in> set (bs @ [base]). \<not> startswith_sep b"
    by simp_all
  have step: "(if path = [] \<or> endswith_sep path then path @ b else path @ ''/'' @ b) = with_sep path @ b"
    by (simp add: with_sep_def)
  show ?case
    using Cons.IH [OF rest, of "with_sep path @ b"] nb
    by (simp add: step with_sep_append)
qed

lemma segment_not_absolute: "\<not> startswith_sep name \<Longrightarrow> \<not> startswith_sep (name @ ''='' @ value)"
  by (cases name) (simp_all add: startswith_sep_def)


text \<open>
  Claim C9, as stated, fails for a base filename that is an absolute path:
  \<^verbatim>\<open>os.path.join\<close> drops every component before an absolute one, so the derived path
  is the base filename alone and is not under the root.
\<close>

theorem absolute_base_filename_counterexample:
  "create_output_file_name ''.'' (Task ''Hist'' [] [] []) ''/tmp/hist.root'' False (Some ''/out'')
     = ''/tmp/hist.root''
   \<and> create_output_file_name ''.'' (Task ''Hist'' [] [] []) ''/tmp/hist.root'' False (Some ''/out'')
     \<noteq> ''/out'' @ ''/'' @ ''/tmp/hist.root''
   \<and> take (length ''/out'')
        (create_output_file_name ''.'' (Task ''Hist'' [] [] []) ''/tmp/hist.root'' False (Some ''/out''))
     \<noteq> ''/out''"
  by (simp add: create_output_file_name_def get_serialized_parameters_def effective_result_path_def
      startswith_sep_def Let_def)

text \<open>
  Claim C9, amended. For every task (its parameter names distinct, none starting with
  the separator), every base filename that is not an absolute path and every root (the
  \<^verbatim>\<open>result_path\<close> setting standing for a root that is missing or empty), the derived
  path is the root, then one segment \<open>name=value\<close> per significant parameter in
  declaration order, then the base filename, joined by the separator; with no
  significant parameter it is the root joined with the base filename.
\<close>

theorem derived_path_for_relative_base_filename:
  assumes "distinct (map fst (get_params task))"
    and "\<forall>name \<in> set (map fst (get_params task)). \<not> startswith_sep name"
    and "\<not> startswith_sep base_filename"
  shows "create_output_file_name result_path_setting task base_filename create_folder result_path
         = spec_derived_path (effective_result_path result_path_setting result_path)
             (spec_segments task) base_filename
       \<and> (spec_segments task = [] \<longrightarrow>
            create_output_file_name result_path_setting task base_filename create_folder result_path
            = with_sep (effective_result_path result_path_setting result_path) @ base_filename)"
proof -
  let ?sig = "filter (\<lambda>(name, significant, value). significant) (get_params task)"
  have params: "map (\<lambda>(key, value). key @ ''='' @ value) (get_serialized_parameters task)
                = spec_segments task"
    by (simp add: get_serialized_parameters_distinct [OF assms(1)] spec_segments_def
        comp_def case_prod_unfold)
  have "\<forall>b \<in> set (spec_segments task). \<not> startswith_sep b"
  proof
    fix b assume "b \<in> set (spec_segments task)"
    then obtain name sg val where m: "(name, sg, val) \<in> set (get_params task)"
      and b: "b = name @ ''='' @ val"
      by (auto simp: spec_segments_def)
    from m have "name \<in> set (map fst (get_params task))" by force
    with assms(2) have "\<not> startswith_sep name" by blast
    then show "\<not> startswith_sep b" unfolding b by (rule segment_not_absolute)
  qed
  with assms(3) have rel: "\<forall>b \<in> set (spec_segments task @ [base_filename]). \<not> startswith_sep b"
    by simp
  have eq: "create_output_file_name result_path_setting task base_filename create_folder result_path
         = spec_derived_path (effective_result_path result_path_setting result_path)
             (spec_segments task) base_filename"
    unfolding create_output_file_name_def Let_def params os_path_join_relative [OF rel]
      spec_derived_path_def ..
  then show ?thesis by (simp add: spec_derived_path_def)
qed

theorem derived_path_for_relative_base_filename_witness:
  "distinct (map fst (get_params
      (Task ''Hist'' [(''exp'', True, ''1003''), (''debug'', False, ''no''), (''run'', True, ''5'')] [] [])))
   \<and> list_all (\<lambda>name. \<not> startswith_sep name) (map fst (get_params
      (Task ''Hist'' [(''exp'', True, ''1003''), (''debug'', False, ''no''), (''run'', True, ''5'')] [] [])))
   \<and> \<not> startswith_sep ''hist.root''
   \<and> create_output_file_name ''.''
        (Task ''Hist'' [(''exp'', True, ''1003''), (''debug'', False, ''no''), (''run'', True, ''5'')] [] [])
        ''hist.root'' False (Some ''/out'')
      = ''/out/exp=1003/run=5/hist.root''"
proof -
  let ?t = "Task ''Hist'' [(''exp'', True, ''1003''), (''debug'', False, ''no''), (''run'', True, ''5'')] [] []"
  have h1: "distinct (map fst (get_params ?t))" by simp
  have h2: "\<forall>name \<in> set (map fst (get_params ?t)). \<not> startswith_sep name"
    by (simp add: startswith_sep_def)
  have h3: "\<not> startswith_sep ''hist.root''" by (simp add: startswith_sep_def)
  have v: "spec_derived_path (effective_result_path ''.'' (Some ''/out'')) (spec_segments ?t) ''hist.root''
           = ''/out/exp=1003/run=5/hist.root''"
    by (simp add: spec_derived_path_def effective_result_path_def spec_segments_def with_sep_def
        endswith_sep_def)
  from derived_path_for_relative_base_filename [OF h1 h2 h3, of "''.''" False "Some ''/out''"]
  show ?thesis using h1 h2 h3 v by (simp add: list_all_iff)
qed


end
